theory Spec2Isabelle
  imports Main "HOL-Library.Char_ord" "HOL-Library.List_Lexorder"
begin

section \<open>JavaScript values\<close>

text \<open>
  The program under verification is \<^verbatim>\<open>src/deepEqual/deepEqual.js\<close>: the exported function
  \<^verbatim>\<open>deepEqual\<close> and its helpers \<^verbatim>\<open>nestedObj\<close>, \<^verbatim>\<open>testKeys\<close>, \<^verbatim>\<open>isObject\<close> and
  \<^verbatim>\<open>isPrimitive\<close>. They are pure functions over JavaScript values, so the embedding is
  a datatype of values, the language operations the program applies to them, and one HOL
  function per source function.

  Scope of the value model.
  \<^item> Numbers are \<open>NaN\<close> and the integers (\<open>Fin i\<close>), meant for the integers that a
    JavaScript number holds exactly and prints in plain decimal; \<open>Fin 0\<close> stands for both
    zeros, which \<^verbatim>\<open>===\<close> and \<^verbatim>\<open>==\<close> do not tell apart. Fractions and infinities are not
    represented.
  \<^item> Strings are lists of 8-bit characters, ordered by character code as JavaScript orders
    code units.
  \<^item> Functions, arrays and map-like objects carry a reference: a natural number that is
    their identity, which is what \<^verbatim>\<open>===\<close> and \<^verbatim>\<open>==\<close> compare on two objects. The same
    reference stands for the same object. A value is a finite tree, so every modelled
    value is acyclic. A function also carries its source text, the result of converting it
    to a string.
  \<^item> An array is dense: its own enumerable properties are the indices below its length.
    The entries of an \<open>Obj\<close> are listed in the order in which JavaScript enumerates them.
  \<^item> Symbols, bigints, accessors, and objects of other classes are not represented.

  The conversions below are those of JavaScript on the values that satisfy the predicate
  \<open>plain\<close> of the section on the scope of the model: integers that a number holds exactly
  and objects that do not redefine their own conversion. Every general statement that
  depends on a conversion or on the order of \<^verbatim>\<open>sort()\<close> carries \<open>plain\<close> as a hypothesis.
\<close>

datatype jsnum = NaN | Fin int

datatype jsval =
    Undefined
  | Null
  | Bool bool
  | Num jsnum
  | Str string
  | Fn nat string
  | Arr nat "jsval list"
  | Obj nat "(string \<times> jsval) list"

datatype error = TypeError

section \<open>The language operations the program uses\<close>

subsection \<open>typeof, Array.isArray, truthiness, strict equality\<close>

fun typeof :: "jsval \<Rightarrow> string" where
  "typeof Undefined = ''undefined''"
| "typeof Null = ''object''"
| "typeof (Bool b) = ''boolean''"
| "typeof (Num x) = ''number''"
| "typeof (Str s) = ''string''"
| "typeof (Fn i src) = ''function''"
| "typeof (Arr i xs) = ''object''"
| "typeof (Obj i es) = ''object''"

fun isArray :: "jsval \<Rightarrow> bool" where
  "isArray (Arr i xs) = True"
| "isArray _ = False"

text \<open>The values that count as true in a condition (\<^verbatim>\<open>value && ...\<close>, \<^verbatim>\<open>!!\<close>).\<close>

fun truthy :: "jsval \<Rightarrow> bool" where
  "truthy Undefined = False"
| "truthy Null = False"
| "truthy (Bool b) = b"
| "truthy (Num NaN) = False"
| "truthy (Num (Fin i)) = (i \<noteq> 0)"
| "truthy (Str s) = (s \<noteq> [])"
| "truthy _ = True"

text \<open>
  \<^verbatim>\<open>a === b\<close>: same type and same value; \<open>NaN\<close> differs from every number, itself
  included; objects and functions are equal when they are the same reference.
\<close>

fun strictEq :: "jsval \<Rightarrow> jsval \<Rightarrow> bool" where
  "strictEq Undefined Undefined = True"
| "strictEq Null Null = True"
| "strictEq (Bool a) (Bool b) = (a = b)"
| "strictEq (Num (Fin a)) (Num (Fin b)) = (a = b)"
| "strictEq (Str a) (Str b) = (a = b)"
| "strictEq (Fn i s) (Fn j t) = (i = j)"
| "strictEq (Arr i xs) (Arr j ys) = (i = j)"
| "strictEq (Obj i es) (Obj j fs) = (i = j)"
| "strictEq _ _ = False"

subsection \<open>Conversion to string\<close>

text \<open>
  An integer prints in plain decimal. That is the JavaScript conversion for integers of
  magnitude below \<open>2^53\<close>, the numbers of \<open>plain\<close>.
\<close>

fun natToString :: "nat \<Rightarrow> string" where
  "natToString n = (if n < 10 then [''0123456789'' ! n]
                    else natToString (n div 10) @ [''0123456789'' ! (n mod 10)])"

declare natToString.simps [simp del]

definition numberToString :: "jsnum \<Rightarrow> string" where
  "numberToString x = (case x of NaN \<Rightarrow> ''NaN''
     | Fin i \<Rightarrow> (if i < 0 then ''-'' @ natToString (nat (- i)) else natToString (nat i)))"

fun isNullish :: "jsval \<Rightarrow> bool" where
  "isNullish Undefined = True"
| "isNullish Null = True"
| "isNullish _ = False"

text \<open>
  \<open>toString\<close> is the conversion that \<^verbatim>\<open>sort()\<close> and \<^verbatim>\<open>==\<close> apply. An array converts as
  \<^verbatim>\<open>join(",")\<close> does: its elements converted and separated by commas, with \<^verbatim>\<open>undefined\<close>
  and \<^verbatim>\<open>null\<close> elements contributing the empty string. A map-like object converts to
  \<^verbatim>\<open>[object Object]\<close>; that is the JavaScript conversion for an object without a key
  \<^verbatim>\<open>toString\<close> or \<^verbatim>\<open>valueOf\<close> of its own, the objects of \<open>plain\<close>. With such a key JavaScript
  calls the member, or raises a TypeError when it is not a function; the model does not
  represent either.
\<close>

fun toString :: "jsval \<Rightarrow> string" and joinElems :: "jsval list \<Rightarrow> string" where
  "toString Undefined = ''undefined''"
| "toString Null = ''null''"
| "toString (Bool b) = (if b then ''true'' else ''false'')"
| "toString (Num x) = numberToString x"
| "toString (Str s) = s"
| "toString (Fn i src) = src"
| "toString (Arr i xs) = joinElems xs"
| "toString (Obj i es) = ''[object Object]''"
| "joinElems [] = []"
| "joinElems [x] = (if isNullish x then [] else toString x)"
| "joinElems (x # y # r) = (if isNullish x then [] else toString x) @ '','' @ joinElems (y # r)"

subsection \<open>Loose equality\<close>

text \<open>
  Conversion of a string to a number covers optional surrounding white space, the empty
  string (zero) and signed decimal integers. Every other string yields \<open>NaN\<close>; this
  includes the spellings of numbers outside the value model.
\<close>

definition isWhite :: "char \<Rightarrow> bool" where
  "isWhite c = (c \<in> set [CHR '' '', CHR 0x09, CHR 0x0A, CHR 0x0B, CHR 0x0C, CHR 0x0D, CHR 0xA0])"

definition isDigit :: "char \<Rightarrow> bool" where
  "isDigit c = (c \<in> set ''0123456789'')"

definition digitsToNat :: "string \<Rightarrow> nat" where
  "digitsToNat s = foldl (\<lambda>acc c. 10 * acc + (of_char c - 48)) 0 s"

definition stringToNumber :: "string \<Rightarrow> jsnum" where
  "stringToNumber s =
     (let t = rev (dropWhile isWhite (rev (dropWhile isWhite s))) in
      if t = [] then Fin 0
      else if list_all isDigit t then Fin (int (digitsToNat t))
      else if hd t = CHR ''+'' \<and> tl t \<noteq> [] \<and> list_all isDigit (tl t)
        then Fin (int (digitsToNat (tl t)))
      else if hd t = CHR ''-'' \<and> tl t \<noteq> [] \<and> list_all isDigit (tl t)
        then Fin (- int (digitsToNat (tl t)))
      else NaN)"

datatype jstype = TUndefined | TNull | TBoolean | TNumber | TString | TObject

text \<open>The language type of a value; functions and arrays are of type Object.\<close>

fun esType :: "jsval \<Rightarrow> jstype" where
  "esType Undefined = TUndefined"
| "esType Null = TNull"
| "esType (Bool b) = TBoolean"
| "esType (Num x) = TNumber"
| "esType (Str s) = TString"
| "esType (Fn i src) = TObject"
| "esType (Arr i xs) = TObject"
| "esType (Obj i es) = TObject"

fun toNumber :: "jsval \<Rightarrow> jsnum" where
  "toNumber Undefined = NaN"
| "toNumber Null = Fin 0"
| "toNumber (Bool b) = (if b then Fin 1 else Fin 0)"
| "toNumber (Num x) = x"
| "toNumber (Str s) = stringToNumber s"
| "toNumber v = stringToNumber (toString v)"

text \<open>
  \<^verbatim>\<open>x == y\<close>. Operands of one type compare strictly. \<^verbatim>\<open>null\<close> and \<^verbatim>\<open>undefined\<close> equal each
  other and nothing else. A string and an object compare as strings, the object converted
  by \<open>toString\<close>. In every other mixed case both operands end up compared as numbers. The
  conversion of an object is that of \<open>toString\<close>, with its scope.
\<close>

definition looseEq :: "jsval \<Rightarrow> jsval \<Rightarrow> bool" where
  "looseEq x y =
     (if esType x = esType y then strictEq x y
      else if isNullish x \<and> isNullish y then True
      else if isNullish x \<or> isNullish y then False
      else if (esType x = TString \<and> esType y = TObject)
            \<or> (esType x = TObject \<and> esType y = TString)
        then toString x = toString y
      else strictEq (Num (toNumber x)) (Num (toNumber y)))"

subsection \<open>Own properties: Object.keys, Object.entries, property access\<close>

text \<open>
  The own enumerable properties of a value, in enumeration order. The key of array index
  \<open>n\<close> is the decimal string of \<open>n\<close>.
\<close>

fun ownEntries :: "jsval \<Rightarrow> (string \<times> jsval) list" where
  "ownEntries (Arr i xs) = zip (map natToString [0..<length xs]) xs"
| "ownEntries (Obj i es) = es"
| "ownEntries (Str s) = zip (map natToString [0..<length s]) (map (\<lambda>c. Str [c]) s)"
| "ownEntries _ = []"

text \<open>\<^verbatim>\<open>Object.keys\<close> and \<^verbatim>\<open>Object.entries\<close> raise a TypeError on \<^verbatim>\<open>undefined\<close> and \<^verbatim>\<open>null\<close>.\<close>

definition objectKeys :: "jsval \<Rightarrow> error + string list" where
  "objectKeys v = (if isNullish v then Inl TypeError else Inr (map fst (ownEntries v)))"

definition objectEntries :: "jsval \<Rightarrow> error + (string \<times> jsval) list" where
  "objectEntries v = (if isNullish v then Inl TypeError else Inr (ownEntries v))"

text \<open>
  \<^verbatim>\<open>v[k]\<close> for a value \<open>v\<close> that is neither \<^verbatim>\<open>undefined\<close> nor \<^verbatim>\<open>null\<close>: the own property
  \<open>k\<close>, the length of an array or string, and \<^verbatim>\<open>undefined\<close> for an absent key. The members
  that a value inherits from its prototype (such as \<^verbatim>\<open>constructor\<close> or \<^verbatim>\<open>toString\<close>) are not
  represented: the model reads them as absent, where JavaScript finds the inherited
  member. So \<open>getProp v k\<close> is \<^verbatim>\<open>v[k]\<close> when \<open>k\<close> is an own property of \<open>v\<close>, and when \<open>k\<close> is not
  the name of an inherited member.
\<close>

definition getProp :: "jsval \<Rightarrow> string \<Rightarrow> jsval" where
  "getProp v k = (case map_of (ownEntries v) k of
       Some x \<Rightarrow> x
     | None \<Rightarrow> (if k = ''length'' then
                   (case v of Arr i xs \<Rightarrow> Num (Fin (int (length xs)))
                            | Str s \<Rightarrow> Num (Fin (int (length s)))
                            | _ \<Rightarrow> Undefined)
                 else Undefined))"

subsection \<open>Array.prototype.sort without a comparison function\<close>

text \<open>
  \<^verbatim>\<open>sort()\<close> orders the elements by their string conversions, compared by character code,
  and is stable. On a list of keys that is \<open>sort\<close> on strings. An element of
  \<^verbatim>\<open>Object.entries\<close> is the two-element array \<^verbatim>\<open>[key, value]\<close>, whose string conversion is
  \<open>pairToString\<close>; the stable insertion sort \<open>sort_key\<close> yields the one stably sorted list.
\<close>

definition pairToString :: "string \<times> jsval \<Rightarrow> string" where
  "pairToString e = joinElems [Str (fst e), snd e]"

section \<open>The program\<close>

text \<open>\<^verbatim>\<open>isObject\<close>, lines 119 to 123: \<^verbatim>\<open>!!(value && typeof value === "object")\<close>.\<close>

definition isObject :: "jsval \<Rightarrow> bool" where
  "isObject v = (if truthy v then typeof v = ''object'' else False)"

text \<open>\<^verbatim>\<open>isPrimitive\<close>, lines 175 to 190.\<close>

definition isPrimitive :: "jsval \<Rightarrow> bool" where
  "isPrimitive v =
     (if strictEq v Null then True
      else if typeof v = ''object'' \<or> typeof v = ''function'' then False
      else True)"

lemma isObject_cases: "isObject v \<longleftrightarrow> (\<exists>i xs. v = Arr i xs) \<or> (\<exists>i es. v = Obj i es)"
  by (cases v) (auto simp: isObject_def)

lemma isPrimitive_cases:
  "isPrimitive v \<longleftrightarrow> \<not> ((\<exists>i s. v = Fn i s) \<or> (\<exists>i xs. v = Arr i xs) \<or> (\<exists>i es. v = Obj i es))"
  by (cases v) (auto simp: isPrimitive_def)

text \<open>Facts about sizes, for the termination proofs.\<close>

lemma size_list_insort_key: "size_list g (insort_key f x xs) = size_list g (x # xs)"
  by (induction xs) auto

lemma size_list_sort_key: "size_list g (sort_key f xs) = size_list g xs"
  by (induction xs) (auto simp: size_list_insort_key)

lemma size_list_snd_zip:
  "length ks = length xs \<Longrightarrow> size_list (\<lambda>e. size (snd e)) (zip ks xs) = size_list size xs"
  by (induction ks xs rule: list_induct2) auto

lemma size_list_snd_le:
  "size_list (\<lambda>e. size (snd e)) es \<le> size_list (size_prod (\<lambda>x. 0) size) es"
  by (induction es) auto

lemma entries_smaller:
  "isObject v \<Longrightarrow> size_list (\<lambda>e. size (snd e)) (ownEntries v) < size v"
proof (cases v)
  case (Arr i xs)
  then show ?thesis by (simp add: size_list_snd_zip)
next
  case (Obj i es)
  then show ?thesis using size_list_snd_le [of es] by simp
qed (auto simp: isObject_def split: if_splits)

lemma getProp_array_smaller:
  assumes "isArray (getProp v k)"
  shows "size (getProp v k) < size v"
proof -
  from assms obtain x where x: "map_of (ownEntries v) k = Some x" "getProp v k = x"
    by (auto simp: getProp_def split: option.splits if_splits jsval.splits)
  then have mem: "(k, x) \<in> set (ownEntries v)" by (simp add: map_of_SomeD)
  show ?thesis
  proof (cases v)
    case (Arr i xs)
    with mem have "x \<in> set xs" by (auto dest: set_zip_rightD)
    then have "size x \<le> size_list size xs" by (simp add: size_list_estimation')
    with Arr x show ?thesis by simp
  next
    case (Obj i es)
    with mem have "size_prod (\<lambda>x. 0) size (k, x) \<le> size_list (size_prod (\<lambda>x. 0) size) es"
      by (intro size_list_estimation') auto
    with Obj x show ?thesis by simp
  next
    case (Str s)
    with mem assms x show ?thesis by (auto dest!: set_zip_rightD)
  qed (use mem in auto)
qed

text \<open>
  \<^verbatim>\<open>testKeys\<close>, lines 126 to 172. \<open>testKeysLoop\<close> is the \<^verbatim>\<open>for (let key of val1Keys)\<close> loop,
  its third argument the keys still to visit.
\<close>

function testKeys :: "jsval \<Rightarrow> jsval \<Rightarrow> error + bool"
  and testKeysLoop :: "jsval \<Rightarrow> jsval \<Rightarrow> string list \<Rightarrow> error + bool"
where
  "testKeys val1 val2 =
     (case objectKeys val1 of Inl e \<Rightarrow> Inl e | Inr ks1 \<Rightarrow>
      (case objectKeys val2 of Inl e \<Rightarrow> Inl e | Inr ks2 \<Rightarrow>
       (let val1Keys = sort ks1; val2Keys = sort ks2
        in if length val1Keys \<noteq> length val2Keys then Inr False
           else testKeysLoop val1 val2 val1Keys)))"
| "testKeysLoop val1 val2 [] = Inr True"
| "testKeysLoop val1 val2 (key # rest) =
     (if \<not> looseEq (getProp val1 key) (getProp val2 key) then
        (if isArray (getProp val1 key) \<and> isArray (getProp val2 key)
         then testKeys (getProp val1 key) (getProp val2 key)
         else Inr False)
      else if typeof (getProp val1 key) \<noteq> typeof (getProp val2 key) then Inr False
      else testKeysLoop val1 val2 rest)"
  by pat_completeness auto
termination
  by (relation "measures
    [\<lambda>c. case c of Inl (v1, v2) \<Rightarrow> size v1 | Inr (v1, v2, ks) \<Rightarrow> size v1,
     \<lambda>c. case c of Inl (v1, v2) \<Rightarrow> Suc (length (ownEntries v1)) | Inr (v1, v2, ks) \<Rightarrow> length ks]")
    (auto simp: objectKeys_def getProp_array_smaller split: if_splits)

declare testKeys.simps [simp del]

text \<open>
  \<^verbatim>\<open>nestedObj\<close>, lines 55 to 117. \<open>nestedObjLoop\<close> is the \<^verbatim>\<open>for\<close> loop over the index \<open>i\<close>,
  its last two arguments the entries of both lists from index \<open>i\<close> on. The keys of entries
  are strings, so the two tests of a key against \<^verbatim>\<open>null\<close> are false. A function body that
  ends without \<^verbatim>\<open>return\<close> yields \<^verbatim>\<open>undefined\<close>: that is the result when the loop runs
  out of entries and when the outer condition fails.
\<close>

function nestedObj :: "jsval \<Rightarrow> jsval \<Rightarrow> error + jsval"
  and nestedObjLoop :: "jsval \<Rightarrow> jsval \<Rightarrow> (string \<times> jsval) list \<Rightarrow> (string \<times> jsval) list
        \<Rightarrow> error + jsval"
where
  "nestedObj testObj1 testObj2 =
     (if isObject testObj1 \<and> isObject testObj2 then
        (case objectEntries testObj1 of Inl e \<Rightarrow> Inl e | Inr es1 \<Rightarrow>
         (case objectEntries testObj2 of Inl e \<Rightarrow> Inl e | Inr es2 \<Rightarrow>
          (let entries1 = sort_key pairToString es1;
               entries2 = sort_key pairToString es2
           in if length entries1 \<noteq> length entries2 then Inr (Bool False)
              else nestedObjLoop testObj1 testObj2 entries1 entries2)))
      else Inr Undefined)"
| "nestedObjLoop testObj1 testObj2 [] entries2 = Inr Undefined"
| "nestedObjLoop testObj1 testObj2 (e1 # rest1) [] = Inl TypeError"
| "nestedObjLoop testObj1 testObj2 (e1 # rest1) (e2 # rest2) =
     (let objectKey1 = Str (fst e1); objectValue1 = snd e1;
          objectKey2 = Str (fst e2); objectValue2 = snd e2
      in if strictEq objectKey1 Null \<and> strictEq objectKey2 Null then Inr (Bool True)
         else if strictEq objectKey1 Null \<or> strictEq objectKey2 Null then Inr (Bool False)
         else if isObject objectValue1 \<and> isObject objectValue2 then
           nestedObj objectValue1 objectValue2
         else if isObject objectValue1 \<or> isObject objectValue2 then Inr (Bool False)
         else if \<not> isObject objectValue1 \<and> \<not> isObject objectValue2 then
           map_sum id Bool (testKeys testObj1 testObj2)
         else nestedObjLoop testObj1 testObj2 rest1 rest2)"
  by pat_completeness auto
termination
  by (relation "measures
    [\<lambda>c. case c of Inl (t1, t2) \<Rightarrow> size t1
                  | Inr (t1, t2, es1, es2) \<Rightarrow> size_list (\<lambda>e. size (snd e)) es1]")
    (auto simp: objectEntries_def size_list_sort_key entries_smaller split: if_splits)

declare nestedObj.simps [simp del]

text \<open>
  \<^verbatim>\<open>deepEqual\<close>, lines 13 to 51. The second test of the \<^verbatim>\<open>else if\<close> on line 43 reads
  \<^verbatim>\<open>val1\<close> twice, as the source does. A call that passes all four \<^verbatim>\<open>if\<close> statements
  reaches the end of the body and yields \<^verbatim>\<open>undefined\<close>.
\<close>

definition deepEqual :: "jsval \<Rightarrow> jsval \<Rightarrow> error + jsval" where
  "deepEqual val1 val2 =
     (if strictEq val1 val2 then Inr (Bool True)
      else if isPrimitive val1 \<and> isPrimitive val2 then Inr (Bool (strictEq val1 val2))
      else if (isPrimitive val1 \<and> typeof val2 = ''object'')
            \<or> (isPrimitive val2 \<and> typeof val1 = ''object'') then Inr (Bool False)
      else if isObject val1 \<and> isObject val2 then
        (if isArray val1 \<noteq> isArray val2 then Inr (Bool False)
         else if isArray val1 = False \<and> isArray val1 = False then nestedObj val1 val2
         else map_sum id Bool (testKeys val1 val2))
      else Inr Undefined)"

section \<open>The scope of the model\<close>



section \<open>Auxiliary facts\<close>

text \<open>
  A call falls through all four \<^verbatim>\<open>if\<close> statements of \<open>deepEqual\<close> when an argument is a
  function and the two arguments are not identical; it then returns \<^verbatim>\<open>undefined\<close> and
  raises nothing. Only \<^verbatim>\<open>===\<close>, \<^verbatim>\<open>typeof\<close>, \<open>isPrimitive\<close> and \<open>isObject\<close> are evaluated on
  the way.
\<close>

lemma deepEqual_fallthrough:
  "\<not> strictEq a b \<Longrightarrow> typeof a = ''function'' \<or> typeof b = ''function'' \<Longrightarrow>
   deepEqual a b = Inr Undefined"
  by (cases a; cases b) (auto simp: deepEqual_def isPrimitive_def isObject_def)

lemma strictEq_refl: "v \<noteq> Num NaN \<Longrightarrow> strictEq v v"
proof (cases v)
  case (Num x)
  assume "v \<noteq> Num NaN"
  with Num show ?thesis by (cases x) auto
qed auto

section \<open>The claims\<close>

text \<open>
  In the statements below \<open>Inr (Bool True)\<close> is the returned value \<^verbatim>\<open>true\<close>,
  \<open>Inr (Bool False)\<close> is \<^verbatim>\<open>false\<close>, and \<open>Inr Undefined\<close> is the result of a call that
  ends without a \<^verbatim>\<open>return\<close>. Two objects written with different references are distinct
  objects.
\<close>

subsection \<open>C1: reflexivity\<close>

text \<open>
  C1, counterexample. The claim says that \<open>deepEqual v v\<close> is true for every acyclic value
  \<open>v\<close> that is not a function. The number \<open>NaN\<close> is such a value, and it is not strictly
  equal to itself: line 23 does not answer, and line 29 returns the strict comparison of
  two primitives, which is false.
\<close>

theorem C1_NaN_not_reflexive: "deepEqual (Num NaN) (Num NaN) = Inr (Bool False)"
  by (simp add: deepEqual_def isPrimitive_def)

text \<open>
  C1, amended: for every value \<open>v\<close> other than \<open>NaN\<close>, \<open>deepEqual v v\<close> returns true. Every
  value of the model is acyclic. Line 23 answers before any classification, so the
  statement holds for functions as well.
\<close>

theorem C1_reflexive_except_NaN: "v \<noteq> Num NaN \<Longrightarrow> deepEqual v v = Inr (Bool True)"
  by (simp add: deepEqual_def strictEq_refl)

theorem C1_reflexive_witness:
  "Arr 1 [Num (Fin 1), Obj 2 [(''c'', Num (Fin 3))]] \<noteq> Num NaN
   \<and> deepEqual (Arr 1 [Num (Fin 1), Obj 2 [(''c'', Num (Fin 3))]])
               (Arr 1 [Num (Fin 1), Obj 2 [(''c'', Num (Fin 3))]]) = Inr (Bool True)"
proof -
  have h: "Arr 1 [Num (Fin 1), Obj 2 [(''c'', Num (Fin 3))]] \<noteq> Num NaN" by simp
  from C1_reflexive_except_NaN [OF h] h show ?thesis by (rule conjI [rotated])
qed

subsection \<open>C2: symmetry\<close>

text \<open>
  C2. The claim says that \<open>deepEqual v1 v2\<close> and \<open>deepEqual v2 v1\<close> give the same result for
  every pair of values. The code does not: \<^verbatim>\<open>deepEqual({a: undefined}, {b: 1})\<close> is true
  and \<^verbatim>\<open>deepEqual({b: 1}, {a: undefined})\<close> is false. \<open>testKeys\<close> visits the keys of its
  first argument only and reads each of them in both arguments; key \<^verbatim>\<open>a\<close> reads
  \<^verbatim>\<open>undefined\<close> on both sides, key \<^verbatim>\<open>b\<close> reads 1 against \<^verbatim>\<open>undefined\<close>.
\<close>

theorem C2_not_symmetric:
  "deepEqual (Obj 1 [(''a'', Undefined)]) (Obj 2 [(''b'', Num (Fin 1))]) = Inr (Bool True)
   \<and> deepEqual (Obj 2 [(''b'', Num (Fin 1))]) (Obj 1 [(''a'', Undefined)]) = Inr (Bool False)"
  by code_simp

subsection \<open>C3: nested equality\<close>

text \<open>
  C3. The claim says that \<^verbatim>\<open>deepEqual({a:{b:[1,2,{c:3}]}}, {a:{b:[1,2,{c:3}]}})\<close> on two
  distinct, structurally identical values is true, and false once the inner \<^verbatim>\<open>c\<close> is 4 in
  one of them. The code returns false in both cases. \<open>nestedObj\<close> descends to the two
  arrays, finds the number 1 in their first entries and hands the arrays to \<open>testKeys\<close>;
  at index 2 the two objects \<^verbatim>\<open>{c:3}\<close> are different references, so they are loosely
  unequal, they are not arrays, and line 159 returns false.
\<close>

theorem C3_nested_equal_values_rejected:
  "deepEqual
     (Obj 1 [(''a'', Obj 2 [(''b'', Arr 3 [Num (Fin 1), Num (Fin 2), Obj 4 [(''c'', Num (Fin 3))]])])])
     (Obj 5 [(''a'', Obj 6 [(''b'', Arr 7 [Num (Fin 1), Num (Fin 2), Obj 8 [(''c'', Num (Fin 3))]])])])
     = Inr (Bool False)
   \<and> deepEqual
     (Obj 1 [(''a'', Obj 2 [(''b'', Arr 3 [Num (Fin 1), Num (Fin 2), Obj 4 [(''c'', Num (Fin 3))]])])])
     (Obj 5 [(''a'', Obj 6 [(''b'', Arr 7 [Num (Fin 1), Num (Fin 2), Obj 8 [(''c'', Num (Fin 4))]])])])
     = Inr (Bool False)"
  by code_simp

subsection \<open>C4: empty compounds\<close>

text \<open>
  C4. The claim says that \<^verbatim>\<open>deepEqual({}, {})\<close> and \<^verbatim>\<open>deepEqual([], [])\<close> are true for
  distinct empty objects and distinct empty arrays. Two empty arrays go to \<open>testKeys\<close>,
  which returns true. Two empty objects go to \<open>nestedObj\<close>, whose loop runs over no entry
  and whose body then ends without a \<^verbatim>\<open>return\<close>: the result is \<^verbatim>\<open>undefined\<close>, not true.
\<close>

theorem C4_empty_objects_undefined:
  "deepEqual (Obj 1 []) (Obj 2 []) = Inr Undefined
   \<and> deepEqual (Arr 1 []) (Arr 2 []) = Inr (Bool True)"
  by code_simp

subsection \<open>C5: the first nested pair decides\<close>



subsection \<open>C6: rejection across type classes\<close>

text \<open>
  C6. \<^verbatim>\<open>deepEqual(5, "5")\<close>, \<^verbatim>\<open>deepEqual(null, {})\<close> and \<^verbatim>\<open>deepEqual([], {})\<close> are false. In
  general the result is false, in either argument order, when one argument is primitive
  and the other is not primitive and has \<^verbatim>\<open>typeof\<close> equal to \<^verbatim>\<open>object\<close>; and it is false when
  both arguments are compounds and exactly one of them is an array.
\<close>

theorem C6_type_class_rejection:
  "deepEqual (Num (Fin 5)) (Str ''5'') = Inr (Bool False)
   \<and> deepEqual Null (Obj 1 []) = Inr (Bool False)
   \<and> deepEqual (Arr 1 []) (Obj 2 []) = Inr (Bool False)
   \<and> (isPrimitive a \<and> \<not> isPrimitive b \<and> typeof b = ''object''
        \<longrightarrow> deepEqual a b = Inr (Bool False) \<and> deepEqual b a = Inr (Bool False))
   \<and> (isObject c \<and> isObject d \<and> isArray c \<noteq> isArray d
        \<longrightarrow> deepEqual c d = Inr (Bool False))"
proof -
  have 1: "deepEqual (Num (Fin 5)) (Str ''5'') = Inr (Bool False)"
    by (simp add: deepEqual_def isPrimitive_def)
  have 2: "deepEqual Null (Obj 1 []) = Inr (Bool False)"
    by (simp add: deepEqual_def isPrimitive_def)
  have 3: "deepEqual (Arr 1 []) (Obj 2 []) = Inr (Bool False)"
    by (simp add: deepEqual_def isPrimitive_def isObject_def)
  have 4: "deepEqual a b = Inr (Bool False) \<and> deepEqual b a = Inr (Bool False)"
    if "isPrimitive a" "\<not> isPrimitive b" "typeof b = ''object''"
    using that by (cases a; cases b) (auto simp: deepEqual_def isPrimitive_def)
  have 5: "deepEqual c d = Inr (Bool False)"
    if "isObject c" "isObject d" "isArray c \<noteq> isArray d"
    using that by (auto simp: deepEqual_def isObject_cases isPrimitive_def)
  from 1 2 3 4 5 show ?thesis by blast
qed

theorem C6_type_class_rejection_witness:
  "(isPrimitive (Str ''x'') \<and> \<not> isPrimitive (Arr 1 [Str ''x'']) \<and> typeof (Arr 1 [Str ''x'']) = ''object'')
   \<and> (isObject (Arr 1 [Num (Fin 1)]) \<and> isObject (Obj 2 [(''0'', Num (Fin 1))])
        \<and> isArray (Arr 1 [Num (Fin 1)]) \<noteq> isArray (Obj 2 [(''0'', Num (Fin 1))]))
   \<and> (deepEqual (Str ''x'') (Arr 1 [Str ''x'']) = Inr (Bool False)
        \<and> deepEqual (Arr 1 [Str ''x'']) (Str ''x'') = Inr (Bool False))
   \<and> deepEqual (Arr 1 [Num (Fin 1)]) (Obj 2 [(''0'', Num (Fin 1))]) = Inr (Bool False)"
  (is "?H1 \<and> ?H2 \<and> ?C1 \<and> ?C2")
proof -
  have h1: ?H1 by code_simp
  have h2: ?H2 by code_simp
  note t = C6_type_class_rejection
    [of "Str ''x''" "Arr 1 [Str ''x'']" "Arr 1 [Num (Fin 1)]" "Obj 2 [(''0'', Num (Fin 1))]"]
  from t h1 have c1: ?C1 by blast
  from t h2 have c2: ?C2 by blast
  from h1 h2 c1 c2 show ?thesis by blast
qed

subsection \<open>C7: loosely equal values of different kinds\<close>




subsection \<open>C8: insertion order of map-like objects\<close>

text \<open>
  C8. The claim says that the equality of map-like objects does not depend on insertion
  order, and the comments on lines 68 and 133 say the same. \<^verbatim>\<open>sort()\<close> on lines 69 and 70
  orders the entries by the string conversion of each \<^verbatim>\<open>[key, value]\<close> pair and keeps
  entries with equal strings in insertion order. In \<^verbatim>\<open>{"a": ["b", 1], "a,b": 1}\<close> both
  entries convert to \<^verbatim>\<open>a,b,1\<close>, so the entry that was inserted first stays first, and
  \<open>nestedObj\<close> decides on the first entry. Compared with a distinct object holding the same
  entries, the object is equal when \<^verbatim>\<open>a\<close> was inserted first and unequal when \<^verbatim>\<open>a,b\<close> was
  inserted first.
\<close>

theorem C8_insertion_order_matters_on_ties:
  "deepEqual (Obj 1 [(''a'', Arr 3 [Str ''b'', Num (Fin 1)]), (''a,b'', Num (Fin 1))])
             (Obj 2 [(''a'', Arr 4 [Str ''b'', Num (Fin 1)]), (''a,b'', Num (Fin 1))])
     = Inr (Bool True)
   \<and> deepEqual (Obj 1 [(''a,b'', Num (Fin 1)), (''a'', Arr 3 [Str ''b'', Num (Fin 1)])])
               (Obj 2 [(''a'', Arr 4 [Str ''b'', Num (Fin 1)]), (''a,b'', Num (Fin 1))])
     = Inr (Bool False)"
  by code_simp

subsection \<open>C9: results that are not a boolean\<close>

text \<open>
  C9. The claim says that \<open>deepEqual\<close> returns no boolean exactly on the inputs that fall
  through its four \<^verbatim>\<open>if\<close> statements, and an explicit boolean on every other input. The
  first half holds (\<open>deepEqual_fallthrough\<close>). The second half
  fails: two distinct empty objects are both compounds and neither is an array, so line 45
  returns the result of \<open>nestedObj\<close>, which is \<^verbatim>\<open>undefined\<close> when the loop runs over no
  entry. The same happens one level down, for \<^verbatim>\<open>deepEqual({a: []}, {a: []})\<close>.
\<close>

theorem C9_undefined_without_fallthrough:
  "isObject (Obj 1 []) \<and> isObject (Obj 2 [])
   \<and> typeof (Obj 1 []) \<noteq> ''function'' \<and> typeof (Obj 2 []) \<noteq> ''function''
   \<and> deepEqual (Obj 1 []) (Obj 2 []) = Inr Undefined
   \<and> deepEqual (Obj 1 [(''a'', Arr 2 [])]) (Obj 3 [(''a'', Arr 4 [])]) = Inr Undefined"
  by code_simp

subsection \<open>C10: key names are not compared\<close>

text \<open>
  C10. \<^verbatim>\<open>deepEqual({a: undefined}, {b: undefined})\<close> is true although the two objects have
  the same number of keys and no key in common: \<open>testKeys\<close> compares the numbers of keys,
  then reads each key of its first argument in both arguments, and \<^verbatim>\<open>a\<close> reads
  \<^verbatim>\<open>undefined\<close> on both sides. Likewise \<^verbatim>\<open>deepEqual({a: undefined, c: undefined}, {b: 1, d: 2})\<close>
  is true: the keys \<^verbatim>\<open>b\<close> and \<^verbatim>\<open>d\<close> of the second object are never read.
\<close>

theorem C10_key_names_not_compared:
  "deepEqual (Obj 1 [(''a'', Undefined)]) (Obj 2 [(''b'', Undefined)]) = Inr (Bool True)
   \<and> length (ownEntries (Obj 1 [(''a'', Undefined)]))
       = length (ownEntries (Obj 2 [(''b'', Undefined)]))
   \<and> set (map fst (ownEntries (Obj 1 [(''a'', Undefined)])))
       \<inter> set (map fst (ownEntries (Obj 2 [(''b'', Undefined)]))) = {}
   \<and> getProp (Obj 1 [(''a'', Undefined)]) ''a'' = Undefined
   \<and> getProp (Obj 2 [(''b'', Undefined)]) ''a'' = Undefined
   \<and> deepEqual (Obj 1 [(''a'', Undefined), (''c'', Undefined)])
               (Obj 2 [(''b'', Num (Fin 1)), (''d'', Num (Fin 2))]) = Inr (Bool True)
   \<and> set (map fst (ownEntries (Obj 1 [(''a'', Undefined), (''c'', Undefined)])))
       \<inter> set (map fst (ownEntries (Obj 2 [(''b'', Num (Fin 1)), (''d'', Num (Fin 2))]))) = {}"
  by code_simp

end
